theory Spec2Isabelle
  imports Main "HOL-Library.Word"
begin

section \<open>The radio front-end controller (firmware/application/radio.cpp)\<close>

text \<open>
  The controller sequences five hardware stages: the RF path switch, the first mixer
  (RFFC507x), the second IF transceiver (MAX2839), the baseband codec (MAX5864) and the
  baseband CPLD that carries the spectrum-inversion bit. It owns three static variables:
  \<open>direction\<close>, \<open>baseband_invert\<close> and \<open>mixer_invert\<close>.

  The stage classes live in headers that are not part of the source at hand. Each stage is
  therefore a record of what the specification says the stage holds, each stage method
  stores its argument, and every call the controller makes on a stage is appended to a
  trace, so that the order of the calls can be stated.
\<close>

subsection \<open>Scalar types and enumerations\<close>

text \<open>\<open>rf::Frequency\<close> is a 64-bit integer; the controller only tests it against zero.\<close>

type_synonym frequency = "64 word"

text \<open>
  \<open>int_fast8_t\<close> gains: the controller passes them through untouched, no arithmetic
  is done on them, so the platform's width does not matter here.
\<close>

type_synonym gain_db = int

text \<open>
  Modelled from the spec: \<open>rf::Direction\<close> and the two mode enumerations are declared
  in rf_path.hpp, max283x.hpp and max5864.hpp, which are missing. Their values are the
  ones the spec lists, which are the ones radio.cpp names.
\<close>

datatype Direction = Receive | Transmit

datatype max283x_Mode = max283x_Standby | max283x_Receive | max283x_Transmit

datatype max5864_Mode = max5864_Shutdown | max5864_Receive | max5864_Transmit

subsection \<open>The tuning plan\<close>

text \<open>
  Modelled from the spec: \<open>tuning::config::create\<close> and its result type are declared in
  tuning.hpp, which is missing. The plan carries a validity flag, the two local-oscillator
  frequencies (a first LO of zero means the first mixer is not needed), the RF path band
  and the mixer inversion flag. The band enumeration is in the missing rf_path.hpp and is
  a type parameter. The planner itself is a parameter \<open>create\<close> of the operations below.
\<close>

record 'band tuning_config =
  is_valid :: bool
  first_lo_frequency :: frequency
  second_lo_frequency :: frequency
  rf_path_band :: 'band
  config_mixer_invert :: bool

subsection \<open>The stages\<close>

text \<open>
  Modelled from the spec: rf_path.hpp is missing. The RF path selector holds the last
  selected band, the direction and the RF amplifier enable.
\<close>

record 'band Path =
  path_band :: 'band
  path_direction :: Direction
  path_rf_amp :: bool

text \<open>
  Modelled from the spec: rffc507x.hpp is missing. The first mixer stage holds its
  enable state and the frequency of the first local oscillator.
\<close>

record RFFC507x =
  rffc_enabled :: bool
  rffc_lo_frequency :: frequency

text \<open>
  Modelled from the spec: max2839.hpp is missing. The second IF stage holds its mode, the
  frequency of the second local oscillator, the three gains and the filter bandwidth.
\<close>

record MAX2839 =
  max2839_mode :: max283x_Mode
  max2839_lo_frequency :: frequency
  max2839_lna_gain :: gain_db
  max2839_vga_gain :: gain_db
  max2839_tx_vga_gain :: gain_db
  max2839_lpf_rf_bandwidth :: "32 word"

text \<open>
  Modelled from the spec: max5864.hpp is missing. The baseband codec holds its mode.
\<close>

record MAX5864 =
  max5864_mode :: max5864_Mode

text \<open>
  Modelled from the spec: baseband_cpld.hpp is missing. The programmable logic holds
  the inversion bit last written by \<open>set_invert\<close>.
\<close>

record CPLD =
  cpld_invert :: bool

subsection \<open>Calls on the stages, as recorded in the trace\<close>

datatype 'band event =
    Gpio_not_ant_pwr_write bool
  | Rf_path_set_direction Direction
  | Rf_path_set_band 'band
  | Rf_path_set_rf_amp bool
  | First_if_disable
  | First_if_enable
  | First_if_set_frequency frequency
  | Second_if_set_frequency frequency
  | Second_if_set_mode max283x_Mode
  | Second_if_set_lna_gain gain_db
  | Second_if_set_vga_gain gain_db
  | Second_if_set_tx_vga_gain gain_db
  | Second_if_set_lpf_rf_bandwidth "32 word"
  | Baseband_codec_set_mode max5864_Mode
  | Baseband_cpld_set_invert bool
  | Clock_manager_set_sampling_frequency "32 word"

subsection \<open>The state of the radio subsystem\<close>

text \<open>
  The file-level objects of radio.cpp (lines 89 to 97), the antenna power GPIO
  (\<open>True\<close> is level 1: the pin is active low), the sampling frequency held by the clock
  manager, and the trace of stage calls made so far.
\<close>

record 'band radio_state =
  gpio_not_ant_pwr :: bool
  rf_path :: "'band Path"
  first_if :: RFFC507x
  second_if :: MAX2839
  baseband_codec :: MAX5864
  baseband_cpld :: CPLD
  sampling_frequency :: "32 word"
  direction :: Direction
  baseband_invert :: bool
  mixer_invert :: bool
  trace :: "'band event list"

text \<open>Everything a caller can observe of the stages: the state without the trace.\<close>

definition stage_state ::
  "'band radio_state \<Rightarrow>
     bool \<times> 'band Path \<times> RFFC507x \<times> MAX2839 \<times> MAX5864 \<times> CPLD \<times> 32 word \<times>
     Direction \<times> bool \<times> bool" where
  "stage_state s =
     (gpio_not_ant_pwr s, rf_path s, first_if s, second_if s, baseband_codec s,
      baseband_cpld s, sampling_frequency s, direction s, baseband_invert s, mixer_invert s)"

text \<open>The antenna bias is on when the MOSFET gate is pulled low.\<close>

definition antenna_bias_on :: "'band radio_state \<Rightarrow> bool" where
  "antenna_bias_on s = (gpio_not_ant_pwr s = False)"

subsection \<open>Stage methods\<close>

text \<open>
  Modelled from the spec: the bodies of the stage methods are missing. Each one stores
  its argument in the stage and is recorded in the trace. The second IF stage's
  \<open>set_frequency\<close> is the one fallible call: it reports whether the stage accepts the
  frequency, and a rejected frequency leaves the previous one in effect. Which
  frequencies it accepts is the parameter \<open>lo_ok\<close>.
\<close>

definition log_call :: "'band event \<Rightarrow> 'band radio_state \<Rightarrow> 'band radio_state" where
  "log_call e s = s\<lparr>trace := trace s @ [e]\<rparr>"

definition gpio_not_ant_pwr_write :: "bool \<Rightarrow> 'band radio_state \<Rightarrow> 'band radio_state" where
  "gpio_not_ant_pwr_write v s = log_call (Gpio_not_ant_pwr_write v) (s\<lparr>gpio_not_ant_pwr := v\<rparr>)"

definition rf_path_set_direction :: "Direction \<Rightarrow> 'band radio_state \<Rightarrow> 'band radio_state" where
  "rf_path_set_direction d s =
     log_call (Rf_path_set_direction d) (s\<lparr>rf_path := (rf_path s)\<lparr>path_direction := d\<rparr>\<rparr>)"

definition rf_path_set_band :: "'band \<Rightarrow> 'band radio_state \<Rightarrow> 'band radio_state" where
  "rf_path_set_band b s =
     log_call (Rf_path_set_band b) (s\<lparr>rf_path := (rf_path s)\<lparr>path_band := b\<rparr>\<rparr>)"

definition rf_path_set_rf_amp :: "bool \<Rightarrow> 'band radio_state \<Rightarrow> 'band radio_state" where
  "rf_path_set_rf_amp a s =
     log_call (Rf_path_set_rf_amp a) (s\<lparr>rf_path := (rf_path s)\<lparr>path_rf_amp := a\<rparr>\<rparr>)"

definition first_if_disable :: "'band radio_state \<Rightarrow> 'band radio_state" where
  "first_if_disable s =
     log_call First_if_disable (s\<lparr>first_if := (first_if s)\<lparr>rffc_enabled := False\<rparr>\<rparr>)"

definition first_if_enable :: "'band radio_state \<Rightarrow> 'band radio_state" where
  "first_if_enable s =
     log_call First_if_enable (s\<lparr>first_if := (first_if s)\<lparr>rffc_enabled := True\<rparr>\<rparr>)"

definition first_if_set_frequency :: "frequency \<Rightarrow> 'band radio_state \<Rightarrow> 'band radio_state" where
  "first_if_set_frequency f s =
     log_call (First_if_set_frequency f) (s\<lparr>first_if := (first_if s)\<lparr>rffc_lo_frequency := f\<rparr>\<rparr>)"

definition second_if_set_frequency ::
  "(frequency \<Rightarrow> bool) \<Rightarrow> frequency \<Rightarrow> 'band radio_state \<Rightarrow> bool \<times> 'band radio_state" where
  "second_if_set_frequency lo_ok f s =
     (if lo_ok f
      then (True, log_call (Second_if_set_frequency f)
                    (s\<lparr>second_if := (second_if s)\<lparr>max2839_lo_frequency := f\<rparr>\<rparr>))
      else (False, log_call (Second_if_set_frequency f) s))"

definition second_if_set_mode :: "max283x_Mode \<Rightarrow> 'band radio_state \<Rightarrow> 'band radio_state" where
  "second_if_set_mode m s =
     log_call (Second_if_set_mode m) (s\<lparr>second_if := (second_if s)\<lparr>max2839_mode := m\<rparr>\<rparr>)"

definition second_if_set_lna_gain :: "gain_db \<Rightarrow> 'band radio_state \<Rightarrow> 'band radio_state" where
  "second_if_set_lna_gain db s =
     log_call (Second_if_set_lna_gain db) (s\<lparr>second_if := (second_if s)\<lparr>max2839_lna_gain := db\<rparr>\<rparr>)"

definition second_if_set_vga_gain :: "gain_db \<Rightarrow> 'band radio_state \<Rightarrow> 'band radio_state" where
  "second_if_set_vga_gain db s =
     log_call (Second_if_set_vga_gain db) (s\<lparr>second_if := (second_if s)\<lparr>max2839_vga_gain := db\<rparr>\<rparr>)"

definition second_if_set_tx_vga_gain :: "gain_db \<Rightarrow> 'band radio_state \<Rightarrow> 'band radio_state" where
  "second_if_set_tx_vga_gain db s =
     log_call (Second_if_set_tx_vga_gain db)
       (s\<lparr>second_if := (second_if s)\<lparr>max2839_tx_vga_gain := db\<rparr>\<rparr>)"

definition second_if_set_lpf_rf_bandwidth ::
  "32 word \<Rightarrow> 'band radio_state \<Rightarrow> 'band radio_state" where
  "second_if_set_lpf_rf_bandwidth bw s =
     log_call (Second_if_set_lpf_rf_bandwidth bw)
       (s\<lparr>second_if := (second_if s)\<lparr>max2839_lpf_rf_bandwidth := bw\<rparr>\<rparr>)"

definition baseband_codec_set_mode :: "max5864_Mode \<Rightarrow> 'band radio_state \<Rightarrow> 'band radio_state" where
  "baseband_codec_set_mode m s =
     log_call (Baseband_codec_set_mode m)
       (s\<lparr>baseband_codec := (baseband_codec s)\<lparr>max5864_mode := m\<rparr>\<rparr>)"

definition baseband_cpld_set_invert :: "bool \<Rightarrow> 'band radio_state \<Rightarrow> 'band radio_state" where
  "baseband_cpld_set_invert b s =
     log_call (Baseband_cpld_set_invert b)
       (s\<lparr>baseband_cpld := (baseband_cpld s)\<lparr>cpld_invert := b\<rparr>\<rparr>)"

definition clock_manager_set_sampling_frequency ::
  "32 word \<Rightarrow> 'band radio_state \<Rightarrow> 'band radio_state" where
  "clock_manager_set_sampling_frequency rate s =
     log_call (Clock_manager_set_sampling_frequency rate) (s\<lparr>sampling_frequency := rate\<rparr>)"

subsection \<open>The controller (namespace radio)\<close>

text \<open>\<open>mixer_invert ^ baseband_invert\<close> on two \<open>bool\<close>s, converted back to \<open>bool\<close>.\<close>

definition bool_xor :: "bool \<Rightarrow> bool \<Rightarrow> bool" where
  "bool_xor a b = (a \<noteq> b)"

text \<open>radio.cpp, lines 109 to 128.\<close>

definition set_direction :: "Direction \<Rightarrow> 'band radio_state \<Rightarrow> 'band radio_state" where
  "set_direction new_direction s =
     (let s1 = s\<lparr>direction := new_direction\<rparr>;
          s2 = s1\<lparr>baseband_invert := (direction s1 = Receive)\<rparr>;
          s3 = baseband_cpld_set_invert (bool_xor (mixer_invert s2) (baseband_invert s2)) s2;
          s4 = second_if_set_mode
                 (if direction s3 = Transmit then max283x_Transmit else max283x_Receive) s3;
          s5 = rf_path_set_direction (direction s4) s4
      in baseband_codec_set_mode
           (if direction s5 = Transmit then max5864_Transmit else max5864_Receive) s5)"

text \<open>radio.cpp, lines 130 to 150. The result is the returned flag and the new state.\<close>

definition set_tuning_frequency ::
  "(frequency \<Rightarrow> 'band tuning_config) \<Rightarrow> (frequency \<Rightarrow> bool) \<Rightarrow> frequency \<Rightarrow>
     'band radio_state \<Rightarrow> bool \<times> 'band radio_state" where
  "set_tuning_frequency create lo_ok frequency s =
     (let tuning_config = create frequency in
      if is_valid tuning_config then
        (let s1 = first_if_disable s;
             s2 = (if first_lo_frequency tuning_config \<noteq> 0
                   then first_if_enable
                          (first_if_set_frequency (first_lo_frequency tuning_config) s1)
                   else s1);
             (result_second_if, s3) =
                second_if_set_frequency lo_ok (second_lo_frequency tuning_config) s2;
             s4 = rf_path_set_band (rf_path_band tuning_config) s3;
             s5 = s4\<lparr>mixer_invert := config_mixer_invert tuning_config\<rparr>;
             s6 = baseband_cpld_set_invert (bool_xor (mixer_invert s5) (baseband_invert s5)) s5
         in (result_second_if, s6))
      else (False, s))"

text \<open>radio.cpp, lines 152 to 179: the pass-throughs.\<close>

definition set_rf_amp :: "bool \<Rightarrow> 'band radio_state \<Rightarrow> 'band radio_state" where
  "set_rf_amp rf_amp_on s = rf_path_set_rf_amp rf_amp_on s"

definition set_lna_gain :: "gain_db \<Rightarrow> 'band radio_state \<Rightarrow> 'band radio_state" where
  "set_lna_gain db s = second_if_set_lna_gain db s"

definition set_vga_gain :: "gain_db \<Rightarrow> 'band radio_state \<Rightarrow> 'band radio_state" where
  "set_vga_gain db s = second_if_set_vga_gain db s"

definition set_tx_gain :: "gain_db \<Rightarrow> 'band radio_state \<Rightarrow> 'band radio_state" where
  "set_tx_gain db s = second_if_set_tx_vga_gain db s"

definition set_baseband_filter_bandwidth ::
  "32 word \<Rightarrow> 'band radio_state \<Rightarrow> 'band radio_state" where
  "set_baseband_filter_bandwidth bandwidth_minimum s =
     second_if_set_lpf_rf_bandwidth bandwidth_minimum s"

definition set_baseband_rate :: "32 word \<Rightarrow> 'band radio_state \<Rightarrow> 'band radio_state" where
  "set_baseband_rate rate s = clock_manager_set_sampling_frequency rate s"

definition set_antenna_bias :: "bool \<Rightarrow> 'band radio_state \<Rightarrow> 'band radio_state" where
  "set_antenna_bias on s = gpio_not_ant_pwr_write (if on then False else True) s"

text \<open>radio.cpp, lines 181 to 187.\<close>

definition disable :: "'band radio_state \<Rightarrow> 'band radio_state" where
  "disable s =
     (let s1 = set_antenna_bias False s;
          s2 = baseband_codec_set_mode max5864_Shutdown s1;
          s3 = second_if_set_mode max283x_Standby s2;
          s4 = first_if_disable s3
      in set_rf_amp False s4)"

text \<open>
  Modelled from the spec: the \<open>Configuration\<close> aggregate is declared in radio.hpp, which
  is missing; its seven fields are the ones \<open>configure\<close> reads.
\<close>

record Configuration =
  tuning_frequency :: frequency
  rf_amp :: bool
  lna_gain :: gain_db
  vga_gain :: gain_db
  baseband_rate :: "32 word"
  baseband_filter_bandwidth :: "32 word"
  config_direction :: Direction

text \<open>radio.cpp, lines 193 to 201. The result of \<open>set_tuning_frequency\<close> is dropped.\<close>

definition configure ::
  "(frequency \<Rightarrow> 'band tuning_config) \<Rightarrow> (frequency \<Rightarrow> bool) \<Rightarrow> Configuration \<Rightarrow>
     'band radio_state \<Rightarrow> 'band radio_state" where
  "configure create lo_ok configuration s =
     (let s1 = snd (set_tuning_frequency create lo_ok (tuning_frequency configuration) s);
          s2 = set_rf_amp (rf_amp configuration) s1;
          s3 = set_lna_gain (lna_gain configuration) s2;
          s4 = set_vga_gain (vga_gain configuration) s3;
          s5 = set_baseband_rate (baseband_rate configuration) s4;
          s6 = set_baseband_filter_bandwidth (baseband_filter_bandwidth configuration) s5
      in set_direction (config_direction configuration) s6)"

text \<open>radio.cpp, lines 189 to 191.\<close>

definition enable ::
  "(frequency \<Rightarrow> 'band tuning_config) \<Rightarrow> (frequency \<Rightarrow> bool) \<Rightarrow> Configuration \<Rightarrow>
     'band radio_state \<Rightarrow> 'band radio_state" where
  "enable create lo_ok configuration s = configure create lo_ok configuration s"


subsection \<open>Reading the trace\<close>

text \<open>The stage calls made between a state and a later one.\<close>

definition calls_during :: "'band radio_state \<Rightarrow> 'band radio_state \<Rightarrow> 'band event list" where
  "calls_during s s' = drop (length (trace s)) (trace s')"

text \<open>The values written to the inversion bit by a sequence of calls, in order.\<close>

definition cpld_writes :: "'band event list \<Rightarrow> bool list" where
  "cpld_writes evs =
     concat (map (\<lambda>e. case e of Baseband_cpld_set_invert b \<Rightarrow> [b] | _ \<Rightarrow> []) evs)"

text \<open>
  The calls that only \<open>set_tx_gain\<close> (line 165) and \<open>set_antenna_bias\<close> (line 178) make.
\<close>

definition tx_gain_or_antenna_bias_call :: "'band event \<Rightarrow> bool" where
  "tx_gain_or_antenna_bias_call e =
     (case e of Second_if_set_tx_vga_gain _ \<Rightarrow> True
              | Gpio_not_ant_pwr_write _ \<Rightarrow> True
              | _ \<Rightarrow> False)"

subsection \<open>Concrete inputs\<close>

text \<open>
  A state in transmit direction with every stage active, and a planner that rejects
  0 Hz, plans 100 MHz through the first mixer with inversion, and plans every other
  frequency as direct conversion on band 1.
\<close>

definition sample_state :: "nat radio_state" where
  "sample_state =
     \<lparr>gpio_not_ant_pwr = False,
      rf_path = \<lparr>path_band = 2, path_direction = Transmit, path_rf_amp = True\<rparr>,
      first_if = \<lparr>rffc_enabled = True, rffc_lo_frequency = 2750000000\<rparr>,
      second_if = \<lparr>max2839_mode = max283x_Transmit, max2839_lo_frequency = 2650000000,
                    max2839_lna_gain = 16, max2839_vga_gain = 20, max2839_tx_vga_gain = 30,
                    max2839_lpf_rf_bandwidth = 1750000\<rparr>,
      baseband_codec = \<lparr>max5864_mode = max5864_Transmit\<rparr>,
      baseband_cpld = \<lparr>cpld_invert = True\<rparr>,
      sampling_frequency = 3072000,
      direction = Transmit,
      baseband_invert = False,
      mixer_invert = True,
      trace = []\<rparr>"

definition sample_create :: "frequency \<Rightarrow> nat tuning_config" where
  "sample_create f =
     (if f = 0 then
        \<lparr>is_valid = False, first_lo_frequency = 0, second_lo_frequency = 0,
         rf_path_band = 0, config_mixer_invert = False\<rparr>
      else if f = 100000000 then
        \<lparr>is_valid = True, first_lo_frequency = 2700000000, second_lo_frequency = 2600000000,
         rf_path_band = 0, config_mixer_invert = True\<rparr>
      else
        \<lparr>is_valid = True, first_lo_frequency = 0, second_lo_frequency = f,
         rf_path_band = 1, config_mixer_invert = False\<rparr>)"

definition sample_configuration :: Configuration where
  "sample_configuration =
     \<lparr>tuning_frequency = 2400000000, rf_amp = False, lna_gain = 32, vga_gain = 24,
      baseband_rate = 2457600, baseband_filter_bandwidth = 2500000,
      config_direction = Receive\<rparr>"

subsection \<open>Unfolding rules\<close>

lemmas stage_defs =
  log_call_def gpio_not_ant_pwr_write_def rf_path_set_direction_def rf_path_set_band_def
  rf_path_set_rf_amp_def first_if_disable_def first_if_enable_def first_if_set_frequency_def
  second_if_set_frequency_def second_if_set_mode_def second_if_set_lna_gain_def
  second_if_set_vga_gain_def second_if_set_tx_vga_gain_def second_if_set_lpf_rf_bandwidth_def
  baseband_codec_set_mode_def baseband_cpld_set_invert_def
  clock_manager_set_sampling_frequency_def

lemmas radio_defs =
  set_rf_amp_def set_lna_gain_def set_vga_gain_def set_tx_gain_def
  set_baseband_filter_bandwidth_def set_baseband_rate_def set_antenna_bias_def

lemmas sample_defs = sample_state_def sample_create_def sample_configuration_def

section \<open>Properties\<close>

text \<open>
  C1. Both operations that change \<open>mixer_invert\<close> or \<open>baseband_invert\<close>, namely
  \<open>set_direction\<close> with any direction and \<open>set_tuning_frequency\<close> with any frequency
  whose plan is valid, write the inversion bit within the operation itself: from any
  state, the writes to the programmable logic made during the operation are exactly one,
  its value is \<open>mixer_invert XOR baseband_invert\<close> of the values the two variables have
  when the operation returns, and the bit holds that value on return. In
  \<open>set_tuning_frequency\<close> this write is the last stage call of the operation.
\<close>
theorem inversion_bit_rewritten_on_mutation:
  "(let s' = set_direction d s in
      cpld_writes (calls_during s s') = [bool_xor (mixer_invert s') (baseband_invert s')] \<and>
      cpld_invert (baseband_cpld s') = bool_xor (mixer_invert s') (baseband_invert s')) \<and>
   (is_valid (create f) \<longrightarrow>
     (let s' = snd (set_tuning_frequency create lo_ok f s) in
        cpld_writes (calls_during s s') = [bool_xor (mixer_invert s') (baseband_invert s')] \<and>
        last (trace s') = Baseband_cpld_set_invert (bool_xor (mixer_invert s') (baseband_invert s')) \<and>
        cpld_invert (baseband_cpld s') = bool_xor (mixer_invert s') (baseband_invert s')))"
  by (simp add: set_direction_def set_tuning_frequency_def stage_defs calls_during_def
      cpld_writes_def Let_def)

theorem inversion_bit_rewritten_on_mutation_witness:
  "is_valid (sample_create 100000000) \<and>
   (let s' = set_direction Receive sample_state in
      mixer_invert s' = True \<and> baseband_invert s' = True \<and>
      cpld_writes (calls_during sample_state s') = [False] \<and>
      cpld_invert (baseband_cpld s') = False) \<and>
   (let s' = snd (set_tuning_frequency sample_create (\<lambda>f. True) 100000000 sample_state) in
      mixer_invert s' = True \<and> baseband_invert s' = False \<and>
      cpld_writes (calls_during sample_state s') = [True] \<and>
      last (trace s') = Baseband_cpld_set_invert True \<and>
      cpld_invert (baseband_cpld s') = True)"
  using inversion_bit_rewritten_on_mutation
    [of Receive sample_state sample_create 100000000 "\<lambda>f. True"]
  by (simp add: sample_defs set_direction_def set_tuning_frequency_def stage_defs
      calls_during_def cpld_writes_def bool_xor_def Let_def)

text \<open>
  C2. For a frequency whose plan is invalid, \<open>set_tuning_frequency\<close> returns false and
  the whole state is as before the call: every stage, the three static variables, the
  inversion bit, and the trace (no stage call is made at all, so the first mixer is not
  disabled on this path).
\<close>
theorem invalid_plan_is_no_op:
  "\<not> is_valid (create f) \<Longrightarrow> set_tuning_frequency create lo_ok f s = (False, s)"
  by (simp add: set_tuning_frequency_def)

theorem invalid_plan_is_no_op_witness:
  "\<not> is_valid (sample_create 0) \<and>
   set_tuning_frequency sample_create (\<lambda>f. True) 0 sample_state = (False, sample_state)"
proof -
  have h: "\<not> is_valid (sample_create 0)"
    by (simp add: sample_create_def)
  from h invalid_plan_is_no_op [of sample_create 0 "\<lambda>f. True" sample_state] show ?thesis
    by simp
qed

text \<open>
  C3. For a frequency whose plan is valid, after \<open>set_tuning_frequency\<close> the first mixer
  is enabled exactly when the plan's first LO frequency is non-zero, and then its
  frequency is that first LO frequency (otherwise the frequency it had is kept). The
  stage calls of the operation start with the unconditional disable; when the first LO is
  non-zero the frequency is set next and the stage is enabled only after that.
\<close>
theorem first_mixer_follows_plan:
  "is_valid (create f) \<Longrightarrow>
   (let plan = create f; s' = snd (set_tuning_frequency create lo_ok f s) in
      rffc_enabled (first_if s') = (first_lo_frequency plan \<noteq> 0) \<and>
      rffc_lo_frequency (first_if s') =
        (if first_lo_frequency plan \<noteq> 0 then first_lo_frequency plan
         else rffc_lo_frequency (first_if s)) \<and>
      calls_during s s' =
        First_if_disable #
        (if first_lo_frequency plan \<noteq> 0
         then [First_if_set_frequency (first_lo_frequency plan), First_if_enable] else []) @
        [Second_if_set_frequency (second_lo_frequency plan),
         Rf_path_set_band (rf_path_band plan),
         Baseband_cpld_set_invert (bool_xor (config_mixer_invert plan) (baseband_invert s))])"
  by (simp add: set_tuning_frequency_def stage_defs calls_during_def Let_def)

theorem first_mixer_follows_plan_witness:
  "is_valid (sample_create 100000000) \<and> is_valid (sample_create 2400000000) \<and>
   (let s' = snd (set_tuning_frequency sample_create (\<lambda>f. True) 100000000 sample_state) in
      rffc_enabled (first_if s') \<and> rffc_lo_frequency (first_if s') = 2700000000 \<and>
      calls_during sample_state s' =
        [First_if_disable, First_if_set_frequency 2700000000, First_if_enable,
         Second_if_set_frequency 2600000000, Rf_path_set_band 0,
         Baseband_cpld_set_invert True]) \<and>
   (let s' = snd (set_tuning_frequency sample_create (\<lambda>f. True) 2400000000 sample_state) in
      \<not> rffc_enabled (first_if s') \<and> rffc_lo_frequency (first_if s') = 2750000000 \<and>
      calls_during sample_state s' =
        [First_if_disable, Second_if_set_frequency 2400000000, Rf_path_set_band 1,
         Baseband_cpld_set_invert False])"
proof -
  have h1: "is_valid (sample_create 100000000)" and h2: "is_valid (sample_create 2400000000)"
    by (simp_all add: sample_create_def)
  from h1 h2
    first_mixer_follows_plan [of sample_create 100000000 "\<lambda>f. True" sample_state]
    first_mixer_follows_plan [of sample_create 2400000000 "\<lambda>f. True" sample_state]
  show ?thesis
    by (simp add: sample_defs set_tuning_frequency_def stage_defs calls_during_def
        bool_xor_def Let_def)
qed

text \<open>
  C4. For a frequency whose plan is valid, \<open>set_tuning_frequency\<close> returns the result of
  the second IF stage's \<open>set_frequency\<close> call, made on the state the first mixer steps
  left. Whatever that result is, the first mixer has been disabled and reconfigured, the
  RF path band and \<open>mixer_invert\<close> are those of the plan, and the inversion bit has been
  rewritten; the second LO frequency changes only when the stage accepted it.
\<close>
theorem tuning_returns_second_if_result:
  "is_valid (create f) \<Longrightarrow>
   (let plan = create f;
        (result, s') = set_tuning_frequency create lo_ok f s;
        s1 = first_if_disable s;
        s2 = (if first_lo_frequency plan \<noteq> 0
              then first_if_enable (first_if_set_frequency (first_lo_frequency plan) s1)
              else s1)
    in result = fst (second_if_set_frequency lo_ok (second_lo_frequency plan) s2) \<and>
       first_if s' = first_if s2 \<and>
       path_band (rf_path s') = rf_path_band plan \<and>
       mixer_invert s' = config_mixer_invert plan \<and>
       cpld_invert (baseband_cpld s') = bool_xor (mixer_invert s') (baseband_invert s') \<and>
       max2839_lo_frequency (second_if s') =
         (if result then second_lo_frequency plan else max2839_lo_frequency (second_if s)) \<and>
       calls_during s s' =
         calls_during s s2 @
         [Second_if_set_frequency (second_lo_frequency plan),
          Rf_path_set_band (rf_path_band plan),
          Baseband_cpld_set_invert (bool_xor (mixer_invert s') (baseband_invert s'))])"
  by (simp add: set_tuning_frequency_def stage_defs calls_during_def Let_def)

theorem tuning_returns_second_if_result_witness:
  "is_valid (sample_create 100000000) \<and>
   (let (result, s') = set_tuning_frequency sample_create (\<lambda>f. False) 100000000 sample_state
    in result = False \<and>
       first_if s' = \<lparr>rffc_enabled = True, rffc_lo_frequency = 2700000000\<rparr> \<and>
       path_band (rf_path s') = 0 \<and>
       mixer_invert s' = True \<and>
       cpld_invert (baseband_cpld s') = True \<and>
       max2839_lo_frequency (second_if s') = 2650000000 \<and>
       calls_during sample_state s' =
         [First_if_disable, First_if_set_frequency 2700000000, First_if_enable,
          Second_if_set_frequency 2600000000, Rf_path_set_band 0,
          Baseband_cpld_set_invert True])"
proof -
  have h: "is_valid (sample_create 100000000)"
    by (simp add: sample_create_def)
  from h tuning_returns_second_if_result [of sample_create 100000000 "\<lambda>f. False" sample_state]
  show ?thesis
    by (simp add: sample_defs set_tuning_frequency_def stage_defs calls_during_def
        bool_xor_def Let_def split_def)
qed

text \<open>
  C5. For every direction \<open>d\<close> and every state, after \<open>set_direction d\<close>: the stored
  direction is \<open>d\<close>, \<open>baseband_invert\<close> is \<open>d = Receive\<close>, \<open>mixer_invert\<close> is the value
  stored before the call and the inversion bit is its exclusive-or with the new
  \<open>baseband_invert\<close>, the second IF stage's mode is Transmit for \<open>d = Transmit\<close> and
  Receive otherwise, the RF path direction is \<open>d\<close>, and the codec's mode is Transmit for
  \<open>d = Transmit\<close> and Receive otherwise. The four stage calls are made in that order.
\<close>

theorem set_direction_effect:
  "(let s' = set_direction d s in
      direction s' = d \<and>
      baseband_invert s' = (d = Receive) \<and>
      mixer_invert s' = mixer_invert s \<and>
      cpld_invert (baseband_cpld s') = bool_xor (mixer_invert s) (baseband_invert s') \<and>
      max2839_mode (second_if s') =
        (if d = Transmit then max283x_Transmit else max283x_Receive) \<and>
      path_direction (rf_path s') = d \<and>
      max5864_mode (baseband_codec s') =
        (if d = Transmit then max5864_Transmit else max5864_Receive) \<and>
      calls_during s s' =
        [Baseband_cpld_set_invert (bool_xor (mixer_invert s) (d = Receive)),
         Second_if_set_mode (if d = Transmit then max283x_Transmit else max283x_Receive),
         Rf_path_set_direction d,
         Baseband_codec_set_mode (if d = Transmit then max5864_Transmit else max5864_Receive)])"
  by (simp add: set_direction_def stage_defs calls_during_def Let_def)

theorem set_direction_effect_witness:
  "(let s' = set_direction Receive sample_state in
      direction s' = Receive \<and> baseband_invert s' \<and> mixer_invert s' \<and>
      \<not> cpld_invert (baseband_cpld s') \<and>
      max2839_mode (second_if s') = max283x_Receive \<and>
      path_direction (rf_path s') = Receive \<and>
      max5864_mode (baseband_codec s') = max5864_Receive \<and>
      calls_during sample_state s' =
        [Baseband_cpld_set_invert False, Second_if_set_mode max283x_Receive,
         Rf_path_set_direction Receive, Baseband_codec_set_mode max5864_Receive])"
  using set_direction_effect [of Receive sample_state]
  by (simp add: sample_defs bool_xor_def Let_def)

text \<open>
  C6. For every configuration and every starting state, \<open>configure\<close> applied twice in
  succession leaves all observable stage state (antenna bias, RF path, first mixer,
  second IF stage, codec, inversion bit, sampling rate, direction and the two inversion
  variables) equal to the state after applying it once.
\<close>

theorem configure_idempotent:
  "stage_state (configure create lo_ok c (configure create lo_ok c s)) =
   stage_state (configure create lo_ok c s)"
  by (simp add: configure_def set_tuning_frequency_def set_direction_def stage_defs
      radio_defs stage_state_def Let_def)

theorem configure_idempotent_witness:
  "stage_state (configure sample_create (\<lambda>f. True) sample_configuration
      (configure sample_create (\<lambda>f. True) sample_configuration sample_state)) =
   (False,
    \<lparr>path_band = 1, path_direction = Receive, path_rf_amp = False\<rparr>,
    \<lparr>rffc_enabled = False, rffc_lo_frequency = 2750000000\<rparr>,
    \<lparr>max2839_mode = max283x_Receive, max2839_lo_frequency = 2400000000,
      max2839_lna_gain = 32, max2839_vga_gain = 24, max2839_tx_vga_gain = 30,
      max2839_lpf_rf_bandwidth = 2500000\<rparr>,
    \<lparr>max5864_mode = max5864_Receive\<rparr>,
    \<lparr>cpld_invert = True\<rparr>,
    2457600, Receive, True, False)"
proof -
  have "stage_state (configure sample_create (\<lambda>f. True) sample_configuration sample_state) =
    (False,
     \<lparr>path_band = 1, path_direction = Receive, path_rf_amp = False\<rparr>,
     \<lparr>rffc_enabled = False, rffc_lo_frequency = 2750000000\<rparr>,
     \<lparr>max2839_mode = max283x_Receive, max2839_lo_frequency = 2400000000,
       max2839_lna_gain = 32, max2839_vga_gain = 24, max2839_tx_vga_gain = 30,
       max2839_lpf_rf_bandwidth = 2500000\<rparr>,
     \<lparr>max5864_mode = max5864_Receive\<rparr>,
     \<lparr>cpld_invert = True\<rparr>,
     2457600, Receive, True, False)"
    by (simp add: sample_defs configure_def set_tuning_frequency_def set_direction_def
        stage_defs radio_defs stage_state_def bool_xor_def Let_def)
  then show ?thesis
    by (simp only: configure_idempotent [of sample_create "\<lambda>f. True" sample_configuration sample_state])
qed

text \<open>
  C7. From every state, \<open>disable\<close> leaves the antenna bias off, the codec in shutdown
  mode, the second IF stage in standby mode, the first mixer disabled and the RF
  amplifier off, and it makes exactly these five stage calls, in that order.
\<close>

theorem disable_effect:
  "(let s' = disable s in
      \<not> antenna_bias_on s' \<and>
      max5864_mode (baseband_codec s') = max5864_Shutdown \<and>
      max2839_mode (second_if s') = max283x_Standby \<and>
      \<not> rffc_enabled (first_if s') \<and>
      \<not> path_rf_amp (rf_path s') \<and>
      calls_during s s' =
        [Gpio_not_ant_pwr_write True, Baseband_codec_set_mode max5864_Shutdown,
         Second_if_set_mode max283x_Standby, First_if_disable, Rf_path_set_rf_amp False])"
  by (simp add: disable_def stage_defs radio_defs calls_during_def antenna_bias_on_def Let_def)

theorem disable_effect_witness:
  "(let s' = disable sample_state in
      gpio_not_ant_pwr s' \<and>
      baseband_codec s' = \<lparr>max5864_mode = max5864_Shutdown\<rparr> \<and>
      max2839_mode (second_if s') = max283x_Standby \<and>
      first_if s' = \<lparr>rffc_enabled = False, rffc_lo_frequency = 2750000000\<rparr> \<and>
      rf_path s' = \<lparr>path_band = 2, path_direction = Transmit, path_rf_amp = False\<rparr> \<and>
      trace s' =
        [Gpio_not_ant_pwr_write True, Baseband_codec_set_mode max5864_Shutdown,
         Second_if_set_mode max283x_Standby, First_if_disable, Rf_path_set_rf_amp False])"
  using disable_effect [of sample_state]
  by (simp add: sample_defs disable_def stage_defs radio_defs calls_during_def
      antenna_bias_on_def Let_def)

text \<open>
  C8. For every configuration and every starting state, \<open>enable\<close> yields the same state,
  trace included, as \<open>configure\<close>; and \<open>configure\<close> is the tuning request followed by
  RF amplifier, LNA gain, VGA gain, baseband rate, filter bandwidth and, last, direction:
  its stage calls are those of \<open>set_tuning_frequency\<close> followed by one call for each of
  the five settings and then the four calls of \<open>set_direction\<close>.
\<close>

theorem enable_is_configure_in_fixed_order:
  "enable create lo_ok c s = configure create lo_ok c s \<and>
   (let s1 = snd (set_tuning_frequency create lo_ok (tuning_frequency c) s) in
      configure create lo_ok c s =
        set_direction (config_direction c)
          (set_baseband_filter_bandwidth (baseband_filter_bandwidth c)
            (set_baseband_rate (baseband_rate c)
              (set_vga_gain (vga_gain c)
                (set_lna_gain (lna_gain c)
                  (set_rf_amp (rf_amp c) s1))))) \<and>
      calls_during s (configure create lo_ok c s) =
        calls_during s s1 @
        [Rf_path_set_rf_amp (rf_amp c),
         Second_if_set_lna_gain (lna_gain c),
         Second_if_set_vga_gain (vga_gain c),
         Clock_manager_set_sampling_frequency (baseband_rate c),
         Second_if_set_lpf_rf_bandwidth (baseband_filter_bandwidth c)] @
        calls_during s1 (set_direction (config_direction c) s1))"
  by (simp add: enable_def configure_def set_tuning_frequency_def set_direction_def stage_defs
      radio_defs calls_during_def Let_def)

theorem enable_is_configure_in_fixed_order_witness:
  "trace (enable sample_create (\<lambda>f. True) sample_configuration sample_state) =
     [First_if_disable, Second_if_set_frequency 2400000000, Rf_path_set_band 1,
      Baseband_cpld_set_invert False,
      Rf_path_set_rf_amp False, Second_if_set_lna_gain 32, Second_if_set_vga_gain 24,
      Clock_manager_set_sampling_frequency 2457600, Second_if_set_lpf_rf_bandwidth 2500000,
      Baseband_cpld_set_invert True, Second_if_set_mode max283x_Receive,
      Rf_path_set_direction Receive, Baseband_codec_set_mode max5864_Receive]"
  using enable_is_configure_in_fixed_order
    [of sample_create "\<lambda>f. True" sample_configuration sample_state]
  by (simp add: sample_defs set_tuning_frequency_def set_direction_def
      stage_defs radio_defs calls_during_def bool_xor_def Let_def)

text \<open>
  C9. For every configuration and every starting state, \<open>configure\<close> (and so \<open>enable\<close>)
  leaves the TX VGA gain and the antenna bias as they were, and none of its stage calls
  is the one \<open>set_tx_gain\<close> makes or the one \<open>set_antenna_bias\<close> makes, each of which
  makes its call whenever it is invoked.
\<close>

theorem configure_keeps_tx_gain_and_antenna_bias:
  "(let s' = configure create lo_ok c s in
      max2839_tx_vga_gain (second_if s') = max2839_tx_vga_gain (second_if s) \<and>
      gpio_not_ant_pwr s' = gpio_not_ant_pwr s \<and>
      antenna_bias_on s' = antenna_bias_on s \<and>
      filter tx_gain_or_antenna_bias_call (calls_during s s') = []) \<and>
   enable create lo_ok c s = configure create lo_ok c s \<and>
   calls_during s (set_tx_gain db s) = [Second_if_set_tx_vga_gain db] \<and>
   calls_during s (set_antenna_bias on s) = [Gpio_not_ant_pwr_write (\<not> on)]"
  by (simp add: enable_def configure_def set_tuning_frequency_def set_direction_def stage_defs
      radio_defs calls_during_def antenna_bias_on_def tx_gain_or_antenna_bias_call_def Let_def)

theorem configure_keeps_tx_gain_and_antenna_bias_witness:
  "(let s' = configure sample_create (\<lambda>f. True) sample_configuration sample_state in
      max2839_tx_vga_gain (second_if s') = 30 \<and> antenna_bias_on s') \<and>
   trace (set_tx_gain 12 sample_state) = [Second_if_set_tx_vga_gain 12] \<and>
   trace (set_antenna_bias False sample_state) = [Gpio_not_ant_pwr_write True]"
  using configure_keeps_tx_gain_and_antenna_bias
    [of sample_create "\<lambda>f. True" sample_configuration sample_state 12 False]
  by (simp add: sample_state_def calls_during_def antenna_bias_on_def Let_def)

text \<open>
  C10. From every state, \<open>disable\<close> leaves \<open>direction\<close>, \<open>mixer_invert\<close>,
  \<open>baseband_invert\<close> and the inversion bit of the programmable logic unchanged and makes
  no write to that bit, so a \<open>set_direction\<close> that follows computes the bit from the
  \<open>mixer_invert\<close> value held before \<open>disable\<close>.
\<close>

theorem disable_keeps_polarity_state:
  "(let s' = disable s in
      direction s' = direction s \<and>
      mixer_invert s' = mixer_invert s \<and>
      baseband_invert s' = baseband_invert s \<and>
      baseband_cpld s' = baseband_cpld s \<and>
      cpld_writes (calls_during s s') = [] \<and>
      cpld_invert (baseband_cpld (set_direction d s')) =
        bool_xor (mixer_invert s) (d = Receive) \<and>
      cpld_writes (calls_during s' (set_direction d s')) =
        [bool_xor (mixer_invert s) (d = Receive)])"
  by (simp add: disable_def set_direction_def stage_defs radio_defs calls_during_def
      cpld_writes_def Let_def)

theorem disable_keeps_polarity_state_witness:
  "(let s' = disable sample_state in
      direction s' = Transmit \<and> mixer_invert s' \<and> \<not> baseband_invert s' \<and>
      cpld_invert (baseband_cpld s') \<and>
      \<not> cpld_invert (baseband_cpld (set_direction Receive s')))"
  using disable_keeps_polarity_state [of sample_state Receive]
  by (simp add: sample_state_def bool_xor_def Let_def)

end
